theory Spec2Isabelle
  imports Complex_Main "HOL-Library.Multiset"
begin

section \<open>Pyoneer3 graphics: a shallow embedding of \<^verbatim>\<open>pyoneer3/graphics.py\<close>\<close>

text \<open>
  The module is a retained-mode scene graph over pygame. Its classes become records, its
  methods functions that take the receiver and return the changed receiver, and every
  exception the source can raise is a value of \<open>error\<close>.

  Numbers. Python mixes unbounded integers and floats (a scale of \<open>0.5\<close>, the \<open>0.5 * word_w\<close>
  of the text packer). Both are embedded in \<open>rat\<close> with exact arithmetic, so the rounding of
  binary floating point is not part of the model; values that pygame keeps integral
  (surface sizes, rectangle coordinates, priorities) are \<open>int\<close>.
\<close>

subsection \<open>Python values, errors and truth\<close>

datatype error =
    AttributeError | AssertionError | NameError | UnboundLocalError | TypeError | IndexError
  | FileNotFoundError | PygameError

datatype pyval = PyNone | PyInt int | PyTuple "int list"

text \<open>The truth value Python gives an object in \<^verbatim>\<open>x if x else y\<close> and in \<^verbatim>\<open>bool(x)\<close>.\<close>

fun truthy :: "pyval \<Rightarrow> bool" where
  "truthy PyNone = False"
| "truthy (PyInt i) = (i \<noteq> 0)"
| "truthy (PyTuple xs) = (xs \<noteq> [])"

text \<open>\<^verbatim>\<open>int(x)\<close> on a number truncates toward zero.\<close>

definition py_int :: "rat \<Rightarrow> int" where
  "py_int q = (if 0 \<le> q then \<lfloor>q\<rfloor> else \<lceil>q\<rceil>)"

subsection \<open>Coordinates and surfaces\<close>

text \<open>
  \<^verbatim>\<open>XYComplex = (xScale, xOffset, yScale, yOffset)\<close> and \<^verbatim>\<open>XYSimple = (xOffset, yOffset)\<close>.
\<close>

type_synonym xycomplex = "rat \<times> rat \<times> rat \<times> rat"
type_synonym xysimple = "rat \<times> rat"

text \<open>
  A pygame surface is its size and what has been painted on it since it was last filled:
  a fill with a colour, then blits of other surfaces at a position. \<^verbatim>\<open>copy()\<close> of a
  surface is the same value.
\<close>

datatype surface = Surface (get_width: int) (get_height: int) (painted: "paint list")
  and paint = Fill pyval | Blit surface xysimple

definition fill :: "pyval \<Rightarrow> surface \<Rightarrow> surface" where
  "fill c s = Surface (get_width s) (get_height s) [Fill c]"

definition blit :: "surface \<Rightarrow> xysimple \<Rightarrow> surface \<Rightarrow> surface" where
  "blit src dest s = Surface (get_width s) (get_height s) (painted s @ [Blit src dest])"

definition to_simple :: "xycomplex \<Rightarrow> surface \<Rightarrow> xysimple" where
  "to_simple coord surf =
     (case coord of (xScale, xOffset, yScale, yOffset) \<Rightarrow>
        (xOffset + of_int (get_width surf) * xScale,
         yOffset + of_int (get_height surf) * yScale))"

definition extract_offsets :: "xycomplex \<Rightarrow> xysimple" where
  "extract_offsets coord = (case coord of (xScale, xOffset, yScale, yOffset) \<Rightarrow> (xOffset, yOffset))"

text \<open>
  \<^verbatim>\<open>pygame.Rect\<close>: left, top, width, height. \<^verbatim>\<open>collidepoint\<close> is true for a point on the left
  or top edge and false for one on the right or bottom edge.
\<close>

datatype rect = Rect (left: int) (top: int) (width: int) (height: int)

definition topleft :: "rect \<Rightarrow> int \<times> int" where
  "topleft r = (left r, top r)"

definition collidepoint :: "rect \<Rightarrow> int \<times> int \<Rightarrow> bool" where
  "collidepoint r p =
     (left r \<le> fst p \<and> fst p < left r + width r \<and> top r \<le> snd p \<and> snd p < top r + height r)"

subsection \<open>Pixel-perfect collision\<close>

text \<open>
  \<^verbatim>\<open>ppm_collide\<close> and \<^verbatim>\<open>ppm_detected\<close> take any two objects with a \<^verbatim>\<open>rect\<close> and a \<^verbatim>\<open>mask\<close>.
  An attribute that is \<^verbatim>\<open>None\<close> (a sprite before its first \<^verbatim>\<open>update()\<close>) raises
  AttributeError where it is dereferenced. \<^verbatim>\<open>Mask.overlap\<close> belongs to pygame: it is the
  parameter \<open>overlap\<close>, which answers with the first overlapping pixel or with nothing.
\<close>

record 'm masked =
  m_rect :: "rect option"
  m_mask :: "'m option"

definition ppm_collide ::
  "('m \<Rightarrow> 'm \<Rightarrow> int \<times> int \<Rightarrow> (int \<times> int) option) \<Rightarrow> 'm masked \<Rightarrow> 'm masked
     \<Rightarrow> error + (int \<times> int) option" where
  "ppm_collide overlap this other =
     (case m_rect other of None \<Rightarrow> Inl AttributeError | Some orect \<Rightarrow>
      case m_rect this of None \<Rightarrow> Inl AttributeError | Some trect \<Rightarrow>
        let other_rel_x = fst (topleft orect) - fst (topleft trect);
            other_rel_y = snd (topleft orect) - snd (topleft trect)
        in case m_mask this of None \<Rightarrow> Inl AttributeError | Some tmask \<Rightarrow>
           case m_mask other of None \<Rightarrow> Inl TypeError | Some omask \<Rightarrow>
             (case overlap tmask omask (other_rel_x, other_rel_y) of
                None \<Rightarrow> Inr None
              | Some ov \<Rightarrow> Inr (Some (fst ov + fst (topleft trect), snd ov + snd (topleft trect)))))"

text \<open>
  \<^verbatim>\<open>bool(collision)\<close>: the collision is \<^verbatim>\<open>None\<close> (false) or a tuple of two numbers, and a
  tuple of length two is true whatever it holds, \<^verbatim>\<open>(0, 0)\<close> included.
\<close>

definition bool_of_collision :: "(int \<times> int) option \<Rightarrow> bool" where
  "bool_of_collision collision =
     (case collision of None \<Rightarrow> truthy PyNone | Some p \<Rightarrow> truthy (PyTuple [fst p, snd p]))"

definition ppm_detected ::
  "('m \<Rightarrow> 'm \<Rightarrow> int \<times> int \<Rightarrow> (int \<times> int) option) \<Rightarrow> 'm masked \<Rightarrow> 'm masked \<Rightarrow> error + bool" where
  "ppm_detected overlap this other =
     (case ppm_collide overlap this other of
        Inl e \<Rightarrow> Inl e
      | Inr collision \<Rightarrow> Inr (bool_of_collision collision))"

subsection \<open>Events and handlers\<close>

text \<open>
  A pygame event carries its type and, for the two types the module looks at, the button
  and the pointer position. The tick handed to \<^verbatim>\<open>handle_event\<close> is passed on untouched
  (\<^verbatim>\<open>None\<close> by default).
\<close>

datatype event =
    MOUSEBUTTONDOWN (button: int) (pos: "int \<times> int")
  | MOUSEMOTION (pos: "int \<times> int")
  | OtherEvent nat

type_synonym tick = "rat option"

text \<open>
  A handler is a callable: a callback of the application, named by a number, or one of the
  three methods a ScrollingFrame binds to itself. The table \<^verbatim>\<open>self.handlers\<close> has four
  single slots and the list of universal handlers.
\<close>

datatype handler = Callback nat | Bound_scroll_handler | Bound_menter | Bound_mexit

record handlers =
  mbd :: "handler option"
  mover :: "handler option"
  menter :: "handler option"
  mexit :: "handler option"
  uevent :: "handler list"

text \<open>
  The slot handlers are called with \<^verbatim>\<open>(self, event)\<close>, the universal ones with
  \<^verbatim>\<open>(self, event, tick)\<close>.
\<close>

datatype invocation = Invoke2 event | Invoke3 event tick

type_synonym calls = "(handler \<times> invocation) list"

subsection \<open>Scene and UIElement\<close>

text \<open>
  The two links of an element are modelled by containment. \<^verbatim>\<open>children\<close> is the list of
  the child elements themselves, so an element with its subtree is a value of \<open>element\<close>.
  \<^verbatim>\<open>parent\<close> is the owner as the element sees it: a Scene with its surface, or a UIElement
  with its position, its surface and its own parent, up the ownership chain. Parent chains
  and child trees are therefore finite and free of cycles, as the objects of a scene graph
  built with \<^verbatim>\<open>set_parent\<close> are.
\<close>

datatype owner =
    Scene_owner (owner_surf: "surface option")
  | UIElement_owner (owner_rel_pos: xycomplex) (owner_surf: "surface option")
      (owner_parent: "owner option")

record uielement =
  name :: string
  rel_pos :: xycomplex
  surf :: "surface option"
  c_surf :: "surface option"
  rect :: "rect option"
  fill_color :: pyval
  priority :: int
  visible :: bool
  active :: bool
  handlers :: handlers
  mouse_inside :: bool
  parent :: "owner option"

datatype element = UIElement (attrs: uielement) (children: "element list")

record scene =
  scene_active :: bool
  scene_surf :: "surface option"
  scene_priority :: int
  scene_children :: "element list"

text \<open>
  \<^verbatim>\<open>UIElement.__init__(self, pos, surf, fill_color=None, render_priority=1)\<close>. The caller
  supplies the defaults; the new element has no children.
\<close>

definition UIElement_init :: "xycomplex \<Rightarrow> surface option \<Rightarrow> pyval \<Rightarrow> int \<Rightarrow> uielement" where
  "UIElement_init p s fill_color_arg render_priority =
     \<lparr> name = [],
       rel_pos = p,
       surf = s,
       c_surf = None,
       rect = None,
       fill_color = (if truthy fill_color_arg then fill_color_arg else PyTuple [0, 0, 0]),
       priority = render_priority,
       visible = True,
       active = True,
       handlers = \<lparr>mbd = None, mover = None, menter = None, mexit = None, uevent = []\<rparr>,
       mouse_inside = False,
       parent = None \<rparr>"

subsubsection \<open>Descendants and children\<close>

text \<open>
  \<^verbatim>\<open>get_descendants\<close>, the same body in Scene and UIElement: a copy of the children list,
  extended in a loop over the children by the descendants of each.
\<close>

fun get_descendants :: "element \<Rightarrow> element list" where
  "get_descendants (UIElement f cs) =
     foldl (\<lambda>descendants child. descendants @ get_descendants child) cs cs"

definition Scene_get_descendants :: "scene \<Rightarrow> element list" where
  "Scene_get_descendants s =
     foldl (\<lambda>descendants child. descendants @ get_descendants child)
       (scene_children s) (scene_children s)"

text \<open>
  \<^verbatim>\<open>get_child_of_name(self, name)\<close>. The loop is written \<^verbatim>\<open>for name in self.children\<close>: its
  variable is the parameter \<^verbatim>\<open>name\<close>, and the \<^verbatim>\<open>child\<close> of its body is assigned nowhere in
  the method, is no global of the module and no builtin. So the first evaluation of
  \<^verbatim>\<open>child.name\<close>, in the first iteration, raises NameError; only a loop that never runs
  reaches \<^verbatim>\<open>return None\<close>.
\<close>

fun get_child_of_name_loop :: "element list \<Rightarrow> error + element option" where
  "get_child_of_name_loop [] = Inr None"
| "get_child_of_name_loop (name_var # rest) = Inl NameError"

definition get_child_of_name :: "element \<Rightarrow> string \<Rightarrow> error + element option" where
  "get_child_of_name self name_arg = get_child_of_name_loop (children self)"

text \<open>What the specification asks of the lookup: the first child of that name, if any.\<close>

definition spec_child_of_name :: "element \<Rightarrow> string \<Rightarrow> element option" where
  "spec_child_of_name self name_arg = find (\<lambda>child. name (attrs child) = name_arg) (children self)"

subsubsection \<open>Absolute position\<close>

text \<open>
  \<^verbatim>\<open>calculate_absolute_position\<close>. The loop runs while the current object is a UIElement:
  it appends the object's position resolved on the surface of the object's parent and
  moves to the parent. A missing parent, or a parent without a surface, raises
  AttributeError. The sums of the x and of the y values are then cut to integers.
\<close>

fun position_chain :: "owner option \<Rightarrow> xysimple list \<Rightarrow> error + xysimple list" where
  "position_chain None chain = Inr chain"
| "position_chain (Some (Scene_owner s)) chain = Inr chain"
| "position_chain (Some (UIElement_owner rp s None)) chain = Inl AttributeError"
| "position_chain (Some (UIElement_owner rp s (Some p))) chain =
     (case owner_surf p of
        None \<Rightarrow> Inl AttributeError
      | Some psurf \<Rightarrow> position_chain (Some p) (chain @ [to_simple rp psurf]))"

definition as_owner :: "'a uielement_scheme \<Rightarrow> owner" where
  "as_owner self = UIElement_owner (rel_pos self) (surf self) (parent self)"

definition calculate_absolute_position :: "'a uielement_scheme \<Rightarrow> error + int \<times> int" where
  "calculate_absolute_position self =
     (case position_chain (Some (as_owner self)) [] of
        Inl e \<Rightarrow> Inl e
      | Inr chain \<Rightarrow>
          if chain = [] then Inl IndexError
          else Inr (py_int (sum_list (map fst chain)), py_int (sum_list (map snd chain))))"

subsubsection \<open>Event routing\<close>

text \<open>
  Handlers are code of the application. \<open>run h args self\<close> is the element after handler \<open>h\<close>
  has returned from the invocation \<open>args\<close>; the calls made are logged in order. A slot that
  holds \<^verbatim>\<open>None\<close> is skipped.
\<close>

definition fire ::
  "(handler \<Rightarrow> invocation \<Rightarrow> 'e \<Rightarrow> 'e) \<Rightarrow> handler option \<Rightarrow> invocation \<Rightarrow> 'e \<times> calls \<Rightarrow> 'e \<times> calls" where
  "fire run slot args st =
     (case slot of None \<Rightarrow> st | Some h \<Rightarrow> (run h args (fst st), snd st @ [(h, args)]))"

text \<open>The two branches on the event type; \<^verbatim>\<open>self.rect\<close> is \<^verbatim>\<open>None\<close> until the first update.\<close>

fun mouse_events ::
  "(handler \<Rightarrow> invocation \<Rightarrow> 'a uielement_scheme \<Rightarrow> 'a uielement_scheme) \<Rightarrow> 'a uielement_scheme
     \<Rightarrow> event \<Rightarrow> error + 'a uielement_scheme \<times> calls" where
  "mouse_events run self (MOUSEBUTTONDOWN b p) =
     (if b = 1 then
        (case rect self of
           None \<Rightarrow> Inl AttributeError
         | Some r \<Rightarrow>
             if collidepoint r p
             then Inr (fire run (mbd (handlers self)) (Invoke2 (MOUSEBUTTONDOWN b p)) (self, []))
             else Inr (self, []))
      else Inr (self, []))"
| "mouse_events run self (MOUSEMOTION p) =
     (case rect self of
        None \<Rightarrow> Inl AttributeError
      | Some r \<Rightarrow>
          if collidepoint r p then
            (let entered =
                   (if \<not> mouse_inside self
                    then fire run (menter (handlers self)) (Invoke2 (MOUSEMOTION p))
                           (self\<lparr>mouse_inside := True\<rparr>, [])
                    else (self, []))
             in Inr (fire run (mover (handlers (fst entered))) (Invoke2 (MOUSEMOTION p)) entered))
          else if mouse_inside self
          then Inr (fire run (mexit (handlers self)) (Invoke2 (MOUSEMOTION p))
                      (self\<lparr>mouse_inside := False\<rparr>, []))
          else Inr (self, []))"
| "mouse_events run self (OtherEvent n) = Inr (self, [])"

definition handle_event ::
  "(handler \<Rightarrow> invocation \<Rightarrow> 'a uielement_scheme \<Rightarrow> 'a uielement_scheme) \<Rightarrow> 'a uielement_scheme
     \<Rightarrow> event \<Rightarrow> tick \<Rightarrow> error + 'a uielement_scheme \<times> calls" where
  "handle_event run self ev t =
     (if \<not> active self then Inr (self, [])
      else
        (case mouse_events run self ev of
           Inl e \<Rightarrow> Inl e
         | Inr st \<Rightarrow>
             Inr (foldl (\<lambda>st uhandler. fire run (Some uhandler) (Invoke3 ev t) st)
                    st (uevent (handlers (fst st))))))"

subsubsection \<open>Parenting and drawing\<close>

text \<open>
  \<^verbatim>\<open>set_parent\<close> sets the child's \<^verbatim>\<open>parent\<close> and appends the child to the parent's children:
  the result is the parent with its new last child. The owner stored in the child is the
  parent as it is at that moment.
\<close>

definition set_parent :: "element \<Rightarrow> element \<Rightarrow> element" where
  "set_parent self p =
     UIElement (attrs p)
       (children p @ [UIElement ((attrs self)\<lparr>parent := Some (as_owner (attrs p))\<rparr>) (children self)])"

definition set_parent_scene :: "element \<Rightarrow> scene \<Rightarrow> scene" where
  "set_parent_scene self s =
     s\<lparr>scene_children := scene_children s
          @ [UIElement ((attrs self)\<lparr>parent := Some (Scene_owner (scene_surf s))\<rparr>) (children self)]\<rparr>"

text \<open>
  \<^verbatim>\<open>UIElement.draw\<close>: two assertions, nothing for an invisible element, else a blit of the
  element's surface on the parent's. In a tree the parent is the node that holds the
  element, so the function is given that node's surface and returns it painted.
\<close>

definition draw :: "uielement \<Rightarrow> surface option \<Rightarrow> error + surface option" where
  "draw self parent_surf =
     (case surf self of
        None \<Rightarrow> Inl AssertionError
      | Some s \<Rightarrow>
          if parent self = None then Inl AssertionError
          else if \<not> visible self then Inr parent_surf
          else (case parent_surf of
                  None \<Rightarrow> Inl AttributeError
                | Some ps \<Rightarrow> Inr (Some (blit s (to_simple (rel_pos self) ps) ps))))"

text \<open>
  A draw pass is logged as the tree of its \<^verbatim>\<open>draw_seq\<close> calls: the element each call was
  made on, as it was at the call, and the calls made for its children.
\<close>

datatype drawn = Drawn (callee: uielement) (nested: "drawn list")

lemma size_list_insort_key: "size_list g (insort_key k x xs) = Suc (g x + size_list g xs)"
  by (induction xs) simp_all

lemma size_list_sort_key: "size_list g (sort_key k xs) = size_list g xs"
  by (induction xs) (simp_all add: size_list_insort_key)

text \<open>
  \<^verbatim>\<open>draw_seq\<close> is \<^verbatim>\<open>draw_children\<close> then \<^verbatim>\<open>draw\<close>. \<^verbatim>\<open>draw_children\<close> asserts the surface, does
  nothing for an invisible element, restores the surface from \<^verbatim>\<open>c_surf\<close> (which is \<^verbatim>\<open>None\<close>
  before the first update), sorts the children by priority with \<^verbatim>\<open>list.sort\<close>, and calls
  \<^verbatim>\<open>draw_seq\<close> on each child in the sorted order (\<open>draw_each\<close> is that loop). \<^verbatim>\<open>list.sort\<close>
  is Python's stable sort; it is modelled by the stable \<open>sort_key\<close> of the HOL library. The
  sorted list stays in place of the children list, as the in-place sort leaves it.
  A pass that raises returns the exception only.
\<close>

function (sequential)
  draw_seq :: "element \<Rightarrow> surface option \<Rightarrow> error + element \<times> surface option \<times> drawn"
  and draw_children :: "element \<Rightarrow> bool \<Rightarrow> error + element \<times> drawn list"
  and draw_each ::
    "element list \<Rightarrow> surface option \<Rightarrow> error + element list \<times> surface option \<times> drawn list"
where
  "draw_seq self parent_surf =
     (case draw_children self True of
        Inl e \<Rightarrow> Inl e
      | Inr (self', trace) \<Rightarrow>
          (case draw (attrs self') parent_surf of
             Inl e \<Rightarrow> Inl e
           | Inr parent_surf' \<Rightarrow> Inr (self', parent_surf', Drawn (attrs self) trace)))"
| "draw_children (UIElement f cs) reset_surf =
     (if surf f = None then Inl AssertionError
      else if \<not> visible f then Inr (UIElement f cs, [])
      else if reset_surf \<and> c_surf f = None then Inl AttributeError
      else
        (case draw_each (sort_key (\<lambda>c. priority (attrs c)) cs)
                (if reset_surf then c_surf f else surf f) of
           Inl e \<Rightarrow> Inl e
         | Inr (cs', surf', trace) \<Rightarrow> Inr (UIElement (f\<lparr>surf := surf'\<rparr>) cs', trace)))"
| "draw_each [] parent_surf = Inr ([], parent_surf, [])"
| "draw_each (child # rest) parent_surf =
     (case draw_seq child parent_surf of
        Inl e \<Rightarrow> Inl e
      | Inr (child', parent_surf', d) \<Rightarrow>
          (case draw_each rest parent_surf' of
             Inl e \<Rightarrow> Inl e
           | Inr (rest', parent_surf'', ds) \<Rightarrow> Inr (child' # rest', parent_surf'', d # ds)))"
  by pat_completeness auto
termination
  by (relation "measure (\<lambda>x. case x of
          Inl (e, ps) \<Rightarrow> 3 * size e + 2
        | Inr (Inl (e, r)) \<Rightarrow> 3 * size e + 1
        | Inr (Inr (cs, ps)) \<Rightarrow> 3 * size_list size cs)")
     (simp_all add: size_list_sort_key)

text \<open>\<^verbatim>\<open>Scene.draw\<close>: the same sort and the same loop, on the scene's surface.\<close>

definition Scene_draw :: "scene \<Rightarrow> error + scene \<times> drawn list" where
  "Scene_draw s =
     (case draw_each (sort_key (\<lambda>c. priority (attrs c)) (scene_children s)) (scene_surf s) of
        Inl e \<Rightarrow> Inl e
      | Inr (cs', surf', trace) \<Rightarrow> Inr (s\<lparr>scene_children := cs', scene_surf := surf'\<rparr>, trace))"

text \<open>Repeated draw passes over the same parent, one trace per pass.\<close>

fun Scene_draw_passes :: "nat \<Rightarrow> scene \<Rightarrow> error + scene \<times> drawn list list" where
  "Scene_draw_passes 0 s = Inr (s, [])"
| "Scene_draw_passes (Suc n) s =
     (case Scene_draw s of
        Inl e \<Rightarrow> Inl e
      | Inr (s', trace) \<Rightarrow>
          (case Scene_draw_passes n s' of
             Inl e \<Rightarrow> Inl e
           | Inr (s'', traces) \<Rightarrow> Inr (s'', trace # traces)))"

fun draw_children_passes :: "nat \<Rightarrow> element \<Rightarrow> error + element \<times> drawn list list" where
  "draw_children_passes 0 self = Inr (self, [])"
| "draw_children_passes (Suc n) self =
     (case draw_children self True of
        Inl e \<Rightarrow> Inl e
      | Inr (self', trace) \<Rightarrow>
          (case draw_children_passes n self' of
             Inl e \<Rightarrow> Inl e
           | Inr (self'', traces) \<Rightarrow> Inr (self'', trace # traces)))"

subsection \<open>ScrollingFrame\<close>

record scrollingframe = uielement +
  window :: "surface option"
  window_size :: xycomplex
  scroll_limits :: xysimple
  scroll_pos :: rat
  scroll_speed :: rat
  scrollable :: bool
  mouse_over :: bool
  scroll_fill :: pyval
  scrollbar_surf :: "surface option"
  scrollbar_padding :: rat
  scrollbar_width :: rat
  show_scrollbar :: bool

definition bind_u :: "handler \<Rightarrow> 'a uielement_scheme \<Rightarrow> 'a uielement_scheme" where
  "bind_u h self = self\<lparr>handlers := (handlers self)\<lparr>uevent := uevent (handlers self) @ [h]\<rparr>\<rparr>"

definition bind_menter :: "handler \<Rightarrow> 'a uielement_scheme \<Rightarrow> 'a uielement_scheme" where
  "bind_menter h self = self\<lparr>handlers := (handlers self)\<lparr>menter := Some h\<rparr>\<rparr>"

definition bind_mexit :: "handler \<Rightarrow> 'a uielement_scheme \<Rightarrow> 'a uielement_scheme" where
  "bind_mexit h self = self\<lparr>handlers := (handlers self)\<lparr>mexit := Some h\<rparr>\<rparr>"

text \<open>
  \<^verbatim>\<open>ScrollingFrame.__init__(self, pos, scroll_limits, window_size, scroll_fill=None,
  render_priority=1)\<close> calls \<^verbatim>\<open>super().__init__(pos, None, render_priority)\<close>: three positional
  arguments, so \<^verbatim>\<open>render_priority\<close> is received as \<^verbatim>\<open>fill_color\<close> and the base class takes
  its own default 1 for the priority. The fields of the frame follow in the order of the
  record: window, window_size, scroll_limits, scroll_pos, scroll_speed, scrollable,
  mouse_over, scroll_fill, scrollbar_surf, scrollbar_padding, scrollbar_width,
  show_scrollbar.
\<close>

definition ScrollingFrame_init ::
  "xycomplex \<Rightarrow> xysimple \<Rightarrow> xycomplex \<Rightarrow> pyval \<Rightarrow> int \<Rightarrow> scrollingframe" where
  "ScrollingFrame_init p scroll_limits_arg window_size_arg scroll_fill_arg render_priority =
     bind_mexit Bound_mexit (bind_menter Bound_menter (bind_u Bound_scroll_handler
       (uielement.extend (UIElement_init p None (PyInt render_priority) 1)
          (scrollingframe.fields None window_size_arg scroll_limits_arg 0 10 True False
             (if truthy scroll_fill_arg then scroll_fill_arg else PyTuple [230, 230, 230])
             None 4 2 True))))"

text \<open>
  \<^verbatim>\<open>scroll\<close> clears the window and blits the content at the scroll position. The frame is
  returned as the call leaves it, with the exception if one was raised (no window before
  the first update).
\<close>

definition scroll :: "'a scrollingframe_scheme \<Rightarrow> 'a scrollingframe_scheme \<times> error option" where
  "scroll self =
     (case window self of
        None \<Rightarrow> (self, Some AttributeError)
      | Some w \<Rightarrow>
          (case surf self of
             None \<Rightarrow> (self\<lparr>window := Some (fill (PyTuple [0, 0, 0, 0]) w)\<rparr>, Some TypeError)
           | Some s \<Rightarrow>
               (self\<lparr>window := Some (blit s (0, scroll_pos self) (fill (PyTuple [0, 0, 0, 0]) w))\<rparr>,
                None)))"

text \<open>
  \<^verbatim>\<open>scroll_handler(self, uie, event, tick)\<close>; \<^verbatim>\<open>uie\<close> and \<^verbatim>\<open>tick\<close> are not used. Button 4 is the
  wheel turned up, button 5 the wheel turned down.
\<close>

definition scroll_handler ::
  "'a scrollingframe_scheme \<Rightarrow> event \<Rightarrow> 'a scrollingframe_scheme \<times> error option" where
  "scroll_handler self ev =
     (if \<not> mouse_over self \<or> \<not> scrollable self then (self, None)
      else
        (case parent self of
           None \<Rightarrow> (self, Some AttributeError)
         | Some p \<Rightarrow>
             (case owner_surf p of
                None \<Rightarrow> (self, None)
              | Some psurf \<Rightarrow>
                  (case ev of
                     MOUSEBUTTONDOWN b pointer \<Rightarrow>
                       if b = 4 then
                         scroll (self\<lparr>scroll_pos :=
                           scroll_pos self + min (scroll_speed self) (- scroll_pos self)\<rparr>)
                       else if b = 5 then
                         (let absolute_window_size = to_simple (window_size self) psurf
                          in if snd absolute_window_size < snd (scroll_limits self)
                             then scroll (self\<lparr>scroll_pos :=
                                    scroll_pos self
                                    - min (scroll_speed self)
                                        (snd (scroll_limits self) + scroll_pos self
                                         - snd absolute_window_size)\<rparr>)
                             else scroll self)
                       else scroll self
                   | MOUSEMOTION pointer \<Rightarrow> (self, None)
                   | OtherEvent n \<Rightarrow> (self, None)))))"

text \<open>
  A sequence of events handed to the handler one after the other; an exception ends it.
\<close>

fun scroll_events ::
  "'a scrollingframe_scheme \<Rightarrow> event list \<Rightarrow> 'a scrollingframe_scheme \<times> error option" where
  "scroll_events self [] = (self, None)"
| "scroll_events self (ev # evs) =
     (case scroll_handler self ev of
        (self', None) \<Rightarrow> scroll_events self' evs
      | (self', Some e) \<Rightarrow> (self', Some e))"

subsection \<open>Option, Image and Sprite\<close>

record option_uie = uielement +
  selected :: bool

definition Option_init :: "xycomplex \<Rightarrow> surface option \<Rightarrow> pyval \<Rightarrow> int \<Rightarrow> option_uie" where
  "Option_init p s fill_color_arg render_priority =
     uielement.extend (UIElement_init p s fill_color_arg render_priority) (option_uie.fields False)"

text \<open>
  \<^verbatim>\<open>Image.__init__(self, pos, image_path, render_priority=1)\<close> takes a file name, which it
  loads, or the surface itself, and calls \<^verbatim>\<open>super().__init__(pos, surface, render_priority)\<close>:
  again the priority is received as \<^verbatim>\<open>fill_color\<close>. Loading belongs to pygame: \<open>load\<close>
  is the image behind a file name, or the exception.
\<close>

datatype image_source = Path string | Loaded "surface option"

record image_uie = uielement +
  image_path :: image_source

definition Image_init ::
  "(string \<Rightarrow> error + surface) \<Rightarrow> xycomplex \<Rightarrow> image_source \<Rightarrow> int \<Rightarrow> error + image_uie" where
  "Image_init load p image_path_arg render_priority =
     (case image_path_arg of
        Path file \<Rightarrow>
          (case load file of
             Inl e \<Rightarrow> Inl e
           | Inr img \<Rightarrow>
               Inr (uielement.extend (UIElement_init p (Some img) (PyInt render_priority) 1)
                      (image_uie.fields image_path_arg)))
      | Loaded s \<Rightarrow>
          Inr (uielement.extend (UIElement_init p s (PyInt render_priority) 1)
                 (image_uie.fields image_path_arg)))"

text \<open>
  \<^verbatim>\<open>Sprite.__init__(self, pos, image_path, anchor=1, render_priority=1, mask=True)\<close> calls
  the constructor of Image with \<^verbatim>\<open>(pos, image_path, render_priority)\<close>. The mask is that of
  pygame, of a type \<open>'m\<close>; it is \<^verbatim>\<open>None\<close> until the first update.
\<close>

record 'm sprite_uie = image_uie +
  sprite_anchor :: int
  rot :: rat
  has_mask :: bool
  mask :: "'m option"

definition Sprite_init ::
  "(string \<Rightarrow> error + surface) \<Rightarrow> xycomplex \<Rightarrow> image_source \<Rightarrow> int \<Rightarrow> int \<Rightarrow> bool
     \<Rightarrow> error + 'm sprite_uie" where
  "Sprite_init load p image_path_arg anchor_arg render_priority mask_arg =
     (case Image_init load p image_path_arg render_priority of
        Inl e \<Rightarrow> Inl e
      | Inr img \<Rightarrow> Inr (image_uie.extend img (sprite_uie.fields anchor_arg 0 mask_arg None)))"

subsection \<open>Text\<close>

text \<open>
  The font is pygame's: \<open>font_size\<close> measures a string, \<open>font_render\<close> renders one with the
  font arguments of the element and gives the surface of the word.
\<close>

record font =
  font_size :: "string \<Rightarrow> int \<times> int"
  font_render :: "string \<Rightarrow> pyval list \<Rightarrow> surface"

text \<open>The attribute \<^verbatim>\<open>_text\<close> is the field \<open>text_value\<close>.\<close>

record text_uie = uielement +
  anchor :: int
  text_value :: string
  font :: font
  font_args :: "pyval list"
  text_surf :: "surface option"
  wrap :: bool

text \<open>
  \<^verbatim>\<open>str.splitlines()\<close> and \<^verbatim>\<open>str.split()\<close> of the Python library, on strings of code points
  below 256. A line ends at \<^verbatim>\<open>\n\<close>, \<^verbatim>\<open>\r\<close>, \<^verbatim>\<open>\r\n\<close>, \<^verbatim>\<open>\x0b\<close>, \<^verbatim>\<open>\x0c\<close>, \<^verbatim>\<open>\x1c\<close>, \<^verbatim>\<open>\x1d\<close>,
  \<^verbatim>\<open>\x1e\<close> or \<^verbatim>\<open>\x85\<close>, and a line end at the end of the string opens no empty last line.
  Words are the maximal runs of characters that are not white space.
\<close>

definition linebreak :: "char \<Rightarrow> bool" where
  "linebreak c = (of_char c \<in> {10, 11, 12, 13, 28, 29, 30, 133 :: nat})"

definition isspace :: "char \<Rightarrow> bool" where
  "isspace c = (of_char c \<in> {9, 10, 11, 12, 13, 28, 29, 30, 31, 32, 133, 160 :: nat})"

fun splitlines_from :: "string \<Rightarrow> string \<Rightarrow> string list" where
  "splitlines_from cur [] = (if cur = [] then [] else [cur])"
| "splitlines_from cur [c] = (if linebreak c then [cur] else [cur @ [c]])"
| "splitlines_from cur (c # d # cs) =
     (if of_char c = (13 :: nat) \<and> of_char d = (10 :: nat) then cur # splitlines_from [] cs
      else if linebreak c then cur # splitlines_from [] (d # cs)
      else splitlines_from (cur @ [c]) (d # cs))"

definition str_splitlines :: "string \<Rightarrow> string list" where
  "str_splitlines s = splitlines_from [] s"

fun split_from :: "string \<Rightarrow> string \<Rightarrow> string list" where
  "split_from cur [] = (if cur = [] then [] else [cur])"
| "split_from cur (c # cs) =
     (if isspace c then (if cur = [] then split_from [] cs else cur # split_from [] cs)
      else split_from (cur @ [c]) cs)"

definition str_split :: "string \<Rightarrow> string list" where
  "str_split s = split_from [] s"

text \<open>
  The state of the packing loops of \<^verbatim>\<open>render_text\<close>: the lines flushed so far, the line
  being packed (its word surfaces with their positions, and its centring offset), the
  running position, the line count of the centred layout, and \<^verbatim>\<open>word_h\<close>, a local that is
  unbound until the first word has been rendered.
\<close>

type_synonym line_surfs = "(surface \<times> rat \<times> rat) list \<times> rat"

record packer =
  render_list :: "line_surfs list"
  line_surfs :: line_surfs
  pen_x :: rat
  pen_y :: rat
  n_lines :: int
  word_h :: "int option"

text \<open>
  One turn of the inner loop, for the word \<open>word\<close> at index \<open>j\<close> of a line of \<open>len\<close> words:
  render the word; if \<^verbatim>\<open>x + 0.5*word_w + line_surfs[1] >= max_width\<close>, flush the line and
  start a new one at the left position, one word height lower; append the word; for the
  centred anchor move the line's offset left by half the word (and half the space, unless
  the word is the last of the input line); advance by the word and a space.
\<close>

definition pack_word ::
  "font \<Rightarrow> pyval list \<Rightarrow> int \<Rightarrow> int \<Rightarrow> int \<Rightarrow> rat \<Rightarrow> nat \<Rightarrow> packer \<Rightarrow> nat \<times> string \<Rightarrow> packer" where
  "pack_word fnt args space max_width anch pos_x len st jword =
     (let word_surf = font_render fnt (snd jword) args;
          word_w = get_width word_surf;
          st1 = st\<lparr>word_h := Some (get_height word_surf)\<rparr>;
          st2 = (if pen_x st1 + (1/2) * of_int word_w + snd (line_surfs st1) \<ge> of_int max_width
                 then st1\<lparr>render_list := render_list st1 @ [line_surfs st1],
                          line_surfs := ([], 0),
                          pen_x := pos_x,
                          pen_y := pen_y st1 + of_int (get_height word_surf),
                          n_lines := (if anch = 1 then n_lines st1 + 1 else n_lines st1)\<rparr>
                 else st1);
          st3 = st2\<lparr>line_surfs :=
                  (fst (line_surfs st2) @ [(word_surf, (pen_x st2, pen_y st2))], snd (line_surfs st2))\<rparr>;
          st4 = (if anch = 1
                 then st3\<lparr>line_surfs :=
                        (fst (line_surfs st3),
                         snd (line_surfs st3)
                         - (1/2) * (of_int word_w
                                    + (if int (fst jword) < int len - 1 then of_int space else 0)))\<rparr>
                 else st3)
      in st4\<lparr>pen_x := pen_x st4 + of_int word_w + of_int space\<rparr>)"

text \<open>
  One turn of the outer loop: pack the words of the line, flush the line, return to the
  left position and go down by \<^verbatim>\<open>word_h\<close>, which raises UnboundLocalError when no word has
  been rendered yet.
\<close>

definition pack_line ::
  "font \<Rightarrow> pyval list \<Rightarrow> int \<Rightarrow> int \<Rightarrow> int \<Rightarrow> rat \<Rightarrow> packer \<Rightarrow> string list \<Rightarrow> error + packer" where
  "pack_line fnt args space max_width anch pos_x st line =
     (let st1 = foldl (pack_word fnt args space max_width anch pos_x (length line))
                  (st\<lparr>line_surfs := ([], 0)\<rparr>) (enumerate 0 line);
          st2 = st1\<lparr>render_list := render_list st1 @ [line_surfs st1], pen_x := pos_x\<rparr>
      in case word_h st2 of
           None \<Rightarrow> Inl UnboundLocalError
         | Some h \<Rightarrow>
             Inr (st2\<lparr>pen_y := pen_y st2 + of_int h,
                      n_lines := (if anch = 1 then n_lines st2 + 1 else n_lines st2)\<rparr>))"

fun pack_lines ::
  "font \<Rightarrow> pyval list \<Rightarrow> int \<Rightarrow> int \<Rightarrow> int \<Rightarrow> rat \<Rightarrow> packer \<Rightarrow> string list list \<Rightarrow> error + packer" where
  "pack_lines fnt args space max_width anch pos_x st [] = Inr st"
| "pack_lines fnt args space max_width anch pos_x st (line # rest) =
     (case pack_line fnt args space max_width anch pos_x st line of
        Inl e \<Rightarrow> Inl e
      | Inr st' \<Rightarrow> pack_lines fnt args space max_width anch pos_x st' rest)"

text \<open>The blits of the packed words on the text surface.\<close>

fun blit_words ::
  "int \<Rightarrow> int \<Rightarrow> int option \<Rightarrow> rat \<Rightarrow> (surface \<times> rat \<times> rat) list \<Rightarrow> surface \<Rightarrow> error + surface" where
  "blit_words anch n wh off [] ts = Inr ts"
| "blit_words anch n wh off ((word_surf, draw_pos) # rest) ts =
     (if anch = 1 then
        (case wh of
           None \<Rightarrow> Inl UnboundLocalError
         | Some h \<Rightarrow>
             blit_words anch n wh off rest
               (blit word_surf (fst draw_pos + off, snd draw_pos - of_int n * of_int h / 2) ts))
      else blit_words anch n wh off rest (blit word_surf (fst draw_pos, snd draw_pos) ts))"

fun blit_lines :: "int \<Rightarrow> int \<Rightarrow> int option \<Rightarrow> line_surfs list \<Rightarrow> surface \<Rightarrow> error + surface" where
  "blit_lines anch n wh [] ts = Inr ts"
| "blit_lines anch n wh (line # rest) ts =
     (case blit_words anch n wh (snd line) (fst line) ts of
        Inl e \<Rightarrow> Inl e
      | Inr ts' \<Rightarrow> blit_lines anch n wh rest ts')"

text \<open>
  The wrapping branch of \<^verbatim>\<open>render_text\<close> up to the render list: the lines and words of the
  text, the width of a space, the size of the surface, the start position (the origin for
  anchor 0, else the centre of the surface), and the packing of every line.
\<close>

definition packed_text :: "'a text_uie_scheme \<Rightarrow> error + packer" where
  "packed_text self =
     (let lines = map str_split (str_splitlines (text_value self));
          space = fst (font_size (font self) '' '')
      in case surf self of
           None \<Rightarrow> Inl AttributeError
         | Some s \<Rightarrow>
             (let max_width = get_width s;
                  max_height = get_height s;
                  pos_x = (if anchor self = 0 then 0 else py_int (of_int max_width / 2));
                  pos_y = (if anchor self = 0 then 0 else py_int (of_int max_height / 2))
              in pack_lines (font self) (font_args self) space max_width (anchor self) (of_int pos_x)
                   \<lparr>render_list = [], line_surfs = ([], 0), pen_x = of_int pos_x,
                    pen_y = of_int pos_y, n_lines = 0, word_h = None\<rparr>
                   lines))"

definition render_text :: "'a text_uie_scheme \<Rightarrow> error + 'a text_uie_scheme" where
  "render_text self =
     (if wrap self then
        (case packed_text self of
           Inl e \<Rightarrow> Inl e
         | Inr st \<Rightarrow>
             (case surf self of
                None \<Rightarrow> Inl AttributeError
              | Some s \<Rightarrow>
                  (case blit_lines (anchor self) (n_lines st) (word_h st) (render_list st)
                          (fill (PyTuple [0, 0, 0, 0]) (Surface (get_width s) (get_height s) [])) of
                     Inl e \<Rightarrow> Inl e
                   | Inr ts \<Rightarrow> Inr (self\<lparr>text_surf := Some ts\<rparr>))))
      else Inr (self\<lparr>text_surf := Some (font_render (font self) (text_value self) (font_args self))\<rparr>))"

definition blit_text :: "'a text_uie_scheme \<Rightarrow> error + 'a text_uie_scheme" where
  "blit_text self =
     (case surf self of
        None \<Rightarrow> Inl AttributeError
      | Some s \<Rightarrow>
          (if anchor self = 1 then
             (case text_surf self of
                None \<Rightarrow> Inl AttributeError
              | Some ts \<Rightarrow>
                  Inr (self\<lparr>surf := Some
                    (blit ts
                       (of_int (py_int (of_int (get_width s) / 2) - py_int (of_int (get_width ts) / 2)),
                        of_int (py_int (of_int (get_height s) / 2) - py_int (of_int (get_height ts) / 2)))
                       (fill (fill_color self) s))\<rparr>))
           else
             (case text_surf self of
                None \<Rightarrow> Inl TypeError
              | Some ts \<Rightarrow> Inr (self\<lparr>surf := Some (blit ts (0, 0) (fill (fill_color self) s))\<rparr>))))"

definition draw_text :: "'a text_uie_scheme \<Rightarrow> error + 'a text_uie_scheme" where
  "draw_text self = (case render_text self of Inl e \<Rightarrow> Inl e | Inr self' \<Rightarrow> blit_text self')"

text \<open>
  \<^verbatim>\<open>Text.__init__(self, pos, size, text, fill_color, font, *font_args, anchor=1,
  render_priority=1, wrap_multiline=True)\<close> calls
  \<^verbatim>\<open>super().__init__(pos, None, fill_color, render_priority)\<close>, creates the surface of the
  given size (pygame refuses a negative size) and draws the text.
\<close>

definition Text_init ::
  "xycomplex \<Rightarrow> int \<times> int \<Rightarrow> string \<Rightarrow> pyval \<Rightarrow> font \<Rightarrow> pyval list \<Rightarrow> int \<Rightarrow> int \<Rightarrow> bool
     \<Rightarrow> error + text_uie" where
  "Text_init p size_arg text_arg fill_color_arg font_arg font_args_arg anchor_arg render_priority
       wrap_multiline =
     (if fst size_arg < 0 \<or> snd size_arg < 0 then Inl PygameError
      else draw_text
             (uielement.extend
                ((UIElement_init p None fill_color_arg render_priority)
                   \<lparr>surf := Some (Surface (fst size_arg) (snd size_arg) [])\<rparr>)
                (text_uie.fields anchor_arg text_arg font_arg font_args_arg None wrap_multiline)))"

section \<open>Theorems\<close>

subsection \<open>Pixel collision\<close>

text \<open>
  Claim C5. For every pair of objects with a rect and a mask, whatever the masks and
  wherever the rects lie (overlapping or not), \<^verbatim>\<open>ppm_detected(a, b)\<close> is true exactly when
  \<^verbatim>\<open>ppm_collide(a, b)\<close> returns a point, and false exactly when it returns \<^verbatim>\<open>None\<close>. Both
  calls succeed on such objects.
\<close>

theorem ppm_detected_iff_collide:
  "ppm_collide overlap
      \<lparr>m_rect = Some ra, m_mask = Some ma\<rparr> \<lparr>m_rect = Some rb, m_mask = Some mb\<rparr>
     = Inr (map_option (\<lambda>ov. (fst ov + left ra, snd ov + top ra))
             (overlap ma mb (left rb - left ra, top rb - top ra)))
   \<and> ppm_detected overlap
      \<lparr>m_rect = Some ra, m_mask = Some ma\<rparr> \<lparr>m_rect = Some rb, m_mask = Some mb\<rparr>
     = Inr (ppm_collide overlap
              \<lparr>m_rect = Some ra, m_mask = Some ma\<rparr> \<lparr>m_rect = Some rb, m_mask = Some mb\<rparr>
            \<noteq> Inr None)"
  by (simp add: ppm_detected_def ppm_collide_def bool_of_collision_def topleft_def Let_def
      split: option.splits)

end
